theory Spec2Isabelle
  imports Complex_Main "HOL-Library.Multiset"
begin

section \<open>Graph utilities of anemoi-graphs: data model\<close>

text \<open>
  The module \<^verbatim>\<open>anemoi/graphs/utils.py\<close> holds four functions over arrays of
  coordinates. Floating-point numbers are idealised as \<^typ>\<open>real\<close>; an exception is a
  value \<open>Inl e\<close> of the result type. \<open>AssertionError\<close> carries the message of the
  \<^verbatim>\<open>assert\<close> statement that failed (assertions are taken as enabled); \<open>LibraryError\<close>
  stands for an exception raised inside a call into numpy, scikit-learn or torch, with the
  message of the library.
\<close>

datatype error = AssertionError string | LibraryError string

text \<open>A coordinate is a row \<open>(latitude, longitude)\<close> in radians; a coordinate tensor of
  shape \<open>(N, 2)\<close> is the list of its \<open>N\<close> rows.\<close>

type_synonym coord = "real \<times> real"

text \<open>A mask tensor: its shape (the dimensions, as \<^verbatim>\<open>mask.shape\<close> gives them) and its
  entries in row-major order.\<close>

record mask_tensor =
  mask_shape :: "nat list"
  mask_entries :: "bool list"

subsection \<open>The nearest-neighbour estimator of scikit-learn\<close>

text \<open>
  The haversine metric as scikit-learn defines it for rows \<open>(x, y)\<close>:
  \<^verbatim>\<open>2 arcsin(sqrt(sin^2(0.5*dx) + cos(x1)cos(x2)sin^2(0.5*dy)))\<close>.
\<close>

definition haversine :: "coord \<Rightarrow> coord \<Rightarrow> real" where
  "haversine p q =
     2 * arcsin (sqrt ((sin (0.5 * (fst p - fst q)))\<^sup>2
                       + cos (fst p) * cos (fst q) * (sin (0.5 * (snd p - snd q)))\<^sup>2))"

record NearestNeighbors =
  metric :: "coord \<Rightarrow> coord \<Rightarrow> real"
  n_jobs :: nat
  fit_X :: "coord list"

text \<open>\<^verbatim>\<open>NearestNeighbors.fit(X)\<close> stores the data; it rejects an array with no sample.\<close>

definition fit :: "NearestNeighbors \<Rightarrow> coord list \<Rightarrow> error + NearestNeighbors" where
  "fit nn X =
     (if X = [] then Inl (LibraryError ''Found array with 0 sample(s)'')
      else Inr (nn\<lparr>fit_X := X\<rparr>))"

text \<open>
  \<^verbatim>\<open>kneighbors(X, n_neighbors, return_distance=True)\<close>: for every query row the
  distances to its \<open>n_neighbors\<close> nearest fitted rows, in ascending order. The query rows
  are given explicitly, so a query that is itself a fitted row is among its own
  neighbours. Asking for more neighbours than fitted rows is an error.
\<close>

definition kneighbors :: "NearestNeighbors \<Rightarrow> coord list \<Rightarrow> nat \<Rightarrow> error + real list list" where
  "kneighbors nn X n_neighbors =
     (if length (fit_X nn) < n_neighbors
      then Inl (LibraryError ''Expected n_neighbors <= n_samples_fit'')
      else Inr (map (\<lambda>q. take n_neighbors (sort (map (metric nn q) (fit_X nn)))) X))"

text \<open>\<^verbatim>\<open>a.max()\<close> of a one-dimensional numpy array; the maximum of no element is an error.\<close>

definition array_max :: "real list \<Rightarrow> error + real" where
  "array_max xs =
     (case xs of
        [] \<Rightarrow> Inl (LibraryError ''zero-size array to reduction operation maximum which has no identity'')
      | x # ys \<Rightarrow> Inr (fold max ys x))"

subsection \<open>get_nearest_neighbour and get_grid_reference_distance\<close>

text \<open>
  \<^verbatim>\<open>
  assert mask is None or mask.shape == (coords_rad.shape[0], 1), "Mask must ..."
  nearest_neighbour = NearestNeighbors(metric="haversine", n_jobs=4)
  nearest_neighbour.fit(coords_rad)
  return nearest_neighbour
  \<close>
\<close>

definition mask_shape_ok :: "coord list \<Rightarrow> mask_tensor option \<Rightarrow> bool" where
  "mask_shape_ok coords_rad msk =
     (case msk of None \<Rightarrow> True | Some m \<Rightarrow> mask_shape m = [length coords_rad, 1])"

definition get_nearest_neighbour ::
  "coord list \<Rightarrow> mask_tensor option \<Rightarrow> error + NearestNeighbors" where
  "get_nearest_neighbour coords_rad msk =
     (if \<not> mask_shape_ok coords_rad msk
      then Inl (AssertionError ''Mask must have the same shape as the number of nodes.'')
      else fit \<lparr>metric = haversine, n_jobs = 4, fit_X = []\<rparr> coords_rad)"

text \<open>
  \<^verbatim>\<open>
  nearest_neighbours = get_nearest_neighbour(coords_rad, mask)
  dists, _ = nearest_neighbours.kneighbors(coords_rad, n_neighbors=2, return_distance=True)
  return dists[dists > 0].max()
  \<close>
  The boolean index \<^verbatim>\<open>dists[dists > 0]\<close> flattens the \<open>N \<times> 2\<close> array in row-major order
  and keeps the positive entries.
\<close>

definition get_grid_reference_distance :: "coord list \<Rightarrow> mask_tensor option \<Rightarrow> error + real" where
  "get_grid_reference_distance coords_rad msk =
     (case get_nearest_neighbour coords_rad msk of
        Inl e \<Rightarrow> Inl e
      | Inr nearest_neighbours \<Rightarrow>
          (case kneighbors nearest_neighbours coords_rad 2 of
             Inl e \<Rightarrow> Inl e
           | Inr dists \<Rightarrow> array_max (filter (\<lambda>d. d > 0) (concat dists))))"

subsection \<open>add_margin\<close>

text \<open>
  \<^verbatim>\<open>
  assert margin >= 0, "Margin must be non-negative"
  if margin == 0:
      return lats, lons
  latitudes, longitudes = [], []
  for lat_sign in [-1, 0, 1]:
      for lon_sign in [-1, 0, 1]:
          latitudes.append(lats + lat_sign * margin)
          longitudes.append(lons + lon_sign * margin)
  return np.concatenate(latitudes), np.concatenate(longitudes)
  \<close>
  The arrays are one-dimensional; adding a scalar to an array adds it to every entry.
  The two nested loops are folds over the list of signs, the state being the pair of
  lists of blocks built so far.
\<close>

definition array_add :: "real list \<Rightarrow> real \<Rightarrow> real list" where
  "array_add a c = map (\<lambda>x. x + c) a"

definition signs :: "int list" where
  "signs = [-1, 0, 1]"

definition margin_inner ::
  "real list \<Rightarrow> real list \<Rightarrow> real \<Rightarrow> int \<Rightarrow> int \<Rightarrow>
   real list list \<times> real list list \<Rightarrow> real list list \<times> real list list" where
  "margin_inner lats lons margin lat_sign lon_sign st =
     (fst st @ [array_add lats (of_int lat_sign * margin)],
      snd st @ [array_add lons (of_int lon_sign * margin)])"

definition margin_outer ::
  "real list \<Rightarrow> real list \<Rightarrow> real \<Rightarrow> int \<Rightarrow>
   real list list \<times> real list list \<Rightarrow> real list list \<times> real list list" where
  "margin_outer lats lons margin lat_sign st =
     fold (margin_inner lats lons margin lat_sign) signs st"

definition add_margin :: "real list \<Rightarrow> real list \<Rightarrow> real \<Rightarrow> error + (real list \<times> real list)" where
  "add_margin lats lons margin =
     (if \<not> margin \<ge> 0 then Inl (AssertionError ''Margin must be non-negative'')
      else if margin = 0 then Inr (lats, lons)
      else (let st = fold (margin_outer lats lons margin) signs ([], [])
            in Inr (concat (fst st), concat (snd st))))"

subsection \<open>get_index_in_outer_join\<close>

text \<open>
  \<^verbatim>\<open>
  mask = torch.all(tensor == vector, axis=1)
  if mask.any():
      return int(torch.where(mask)[0])
  return -1
  \<close>
  The matrix is the list of its rows. Comparing a row of \<open>N\<close> entries with a vector of
  \<open>K\<close> entries follows the broadcasting rule: entry by entry when \<open>N = K\<close>, against the
  single entry when one side has exactly one, and an error otherwise. Converting the
  tensor of matching indices to \<^verbatim>\<open>int\<close> succeeds only when it has exactly one entry.
\<close>

definition broadcast_eq :: "'a list \<Rightarrow> 'a list \<Rightarrow> error + bool list" where
  "broadcast_eq row vector =
     (if length row = length vector then Inr (map (\<lambda>(x, y). x = y) (zip row vector))
      else if length vector = 1 then Inr (map (\<lambda>x. x = hd vector) row)
      else if length row = 1 then Inr (map (\<lambda>y. hd row = y) vector)
      else Inl (LibraryError ''The size of tensor a must match the size of tensor b''))"

fun all_rows :: "'a list list \<Rightarrow> 'a list \<Rightarrow> error + bool list" where
  "all_rows [] vector = Inr []"
| "all_rows (row # rows) vector =
     (case broadcast_eq row vector of
        Inl e \<Rightarrow> Inl e
      | Inr bs \<Rightarrow> (case all_rows rows vector of
                    Inl e \<Rightarrow> Inl e
                  | Inr ms \<Rightarrow> Inr (list_all (\<lambda>b. b) bs # ms)))"

definition where_true :: "bool list \<Rightarrow> nat list" where
  "where_true ms = filter (\<lambda>i. ms ! i) [0..<length ms]"

definition tensor_to_int :: "nat list \<Rightarrow> error + int" where
  "tensor_to_int t =
     (case t of
        [i] \<Rightarrow> Inr (int i)
      | _ \<Rightarrow> Inl (LibraryError ''only one element tensors can be converted to Python scalars''))"

definition get_index_in_outer_join :: "'a list \<Rightarrow> 'a list list \<Rightarrow> error + int" where
  "get_index_in_outer_join vector tensor =
     (case all_rows tensor vector of
        Inl e \<Rightarrow> Inl e
      | Inr ms \<Rightarrow> if list_ex (\<lambda>b. b) ms then tensor_to_int (where_true ms) else Inr (- 1))"

section \<open>Reference notions of the specification\<close>

text \<open>
  The nine offset variants of a point \<open>(lat, lon)\<close>:
  \<open>(lat + a * margin, lon + b * margin)\<close> for \<open>a\<close> and \<open>b\<close> in \<open>{-1, 0, 1}\<close>.
\<close>

definition offset_variants :: "real \<Rightarrow> real \<Rightarrow> real \<Rightarrow> (real \<times> real) list" where
  "offset_variants lat lon margin =
     concat (map (\<lambda>a. map (\<lambda>b. (lat + of_int a * margin, lon + of_int b * margin))
                          [- 1, 0, 1 :: int])
                 [- 1, 0, 1 :: int])"

text \<open>A list of points, each moved by \<open>a * margin\<close> in latitude and \<open>b * margin\<close> in
  longitude.\<close>

definition shifted :: "real \<Rightarrow> int \<Rightarrow> int \<Rightarrow> (real \<times> real) list \<Rightarrow> (real \<times> real) list" where
  "shifted margin a b zs = map (\<lambda>(la, lo). (la + of_int a * margin, lo + of_int b * margin)) zs"

text \<open>
  The brute-force reference distance: for every point the minimum of its positive
  distances to the other points, and the maximum of these minima over all points. A
  point that has no other point at a positive distance contributes no minimum.
\<close>

definition minimum_of :: "real list \<Rightarrow> real option" where
  "minimum_of xs = (case xs of [] \<Rightarrow> None | x # ys \<Rightarrow> Some (fold min ys x))"

definition maximum_of :: "real list \<Rightarrow> real option" where
  "maximum_of xs = (case xs of [] \<Rightarrow> None | x # ys \<Rightarrow> Some (fold max ys x))"

definition positive_distances_to_others :: "coord list \<Rightarrow> nat \<Rightarrow> real list" where
  "positive_distances_to_others coords i =
     filter (\<lambda>d. d > 0)
       (map (\<lambda>j. haversine (coords ! i) (coords ! j)) (filter (\<lambda>j. j \<noteq> i) [0..<length coords]))"

definition brute_force_reference_distance :: "coord list \<Rightarrow> real option" where
  "brute_force_reference_distance coords =
     maximum_of (concat (map (\<lambda>i. case minimum_of (positive_distances_to_others coords i) of
                                      None \<Rightarrow> [] | Some m \<Rightarrow> [m])
                             [0..<length coords]))"

section \<open>add_margin: the degenerate case and the precondition\<close>

text \<open>
  Claim C4. With a margin equal to \<open>0\<close>, \<open>add_margin\<close> returns the two input sequences
  themselves, whatever they are; the result is not the nine-fold replication.
\<close>

theorem add_margin_zero_identity:
  "add_margin lats lons 0 = Inr (lats, lons)"
  by (simp add: add_margin_def)

text \<open>
  Claim C8. \<open>add_margin\<close> fails with the assertion error of its precondition exactly when
  the margin is negative: every negative margin fails, every non-negative margin passes
  the check (and then returns a result).
\<close>

theorem add_margin_negative_margin:
  "(margin < 0 \<longrightarrow> add_margin lats lons margin = Inl (AssertionError ''Margin must be non-negative''))
   \<and> (margin \<ge> 0 \<longrightarrow> (\<exists>r. add_margin lats lons margin = Inr r))"
  by (simp add: add_margin_def Let_def)

theorem add_margin_negative_margin_witness:
  "add_margin [1, 2] [3, 4] (- 1) = Inl (AssertionError ''Margin must be non-negative'')
   \<and> (\<exists>r. add_margin [1, 2] [3, 4] 0 = Inr r)"
  using add_margin_negative_margin [of "- 1" "[1, 2]" "[3, 4]"]
        add_margin_negative_margin [of 0 "[1, 2]" "[3, 4]"]
  by simp

section \<open>add_margin: the nine blocks\<close>

lemma length_array_add: "length (array_add a c) = length a"
  by (simp add: array_add_def)

lemma zip_array_add:
  "zip (array_add lats (of_int a * margin)) (array_add lons (of_int b * margin))
     = shifted margin a b (zip lats lons)"
  by (simp add: array_add_def shifted_def zip_map_map)

lemma upt_nine: "[0..<9] = [0, 1, 2, 3, 4, 5, 6, 7, 8::nat]"
  by code_simp

text \<open>Unfolding the two loops: block \<open>k\<close> carries the latitude sign \<open>k div 3 - 1\<close> and the
  longitude sign \<open>k mod 3 - 1\<close>.\<close>

lemma add_margin_blocks:
  assumes "margin > 0"
  shows "add_margin lats lons margin =
     Inr (concat (map (\<lambda>k. array_add lats (of_int (int (k div 3) - 1) * margin)) [0..<9]),
          concat (map (\<lambda>k. array_add lons (of_int (int (k mod 3) - 1) * margin)) [0..<9]))"
  using assms unfolding upt_nine
  by (simp add: add_margin_def margin_outer_def margin_inner_def signs_def)

lemma concat_block:
  "\<forall>b\<in>set bs. length b = N \<Longrightarrow> k < length bs \<Longrightarrow> take N (drop (k * N) (concat bs)) = bs ! k"
proof (induction bs arbitrary: k)
  case Nil
  then show ?case by simp
next
  case (Cons b bs)
  show ?case
  proof (cases k)
    case 0
    with Cons.prems show ?thesis by simp
  next
    case (Suc j)
    with Cons show ?thesis by simp
  qed
qed

lemma length_concat_blocks:
  "\<forall>b\<in>set bs. length b = N \<Longrightarrow> length (concat bs) = length bs * N"
  by (induction bs) auto

lemma zip_concat_blocks:
  "(\<And>k. length (f k) = length (g k)) \<Longrightarrow>
   zip (concat (map f ks)) (concat (map g ks)) = concat (map (\<lambda>k. zip (f k) (g k)) ks)"
  by (induction ks) simp_all

lemma mset_variants:
  "mset (concat (map (\<lambda>(la, lo). offset_variants la lo margin) zs))
     = mset (shifted margin (- 1) (- 1) zs) + mset (shifted margin (- 1) 0 zs) + mset (shifted margin (- 1) 1 zs)
     + mset (shifted margin 0 (- 1) zs) + mset (shifted margin 0 0 zs) + mset (shifted margin 0 1 zs)
     + mset (shifted margin 1 (- 1) zs) + mset (shifted margin 1 0 zs) + mset (shifted margin 1 1 zs)"
  by (induction zs) (auto simp: offset_variants_def shifted_def)

lemma mset_blocks:
  "mset (concat (map (\<lambda>k. shifted margin (int (k div 3) - 1) (int (k mod 3) - 1) zs) [0..<9]))
     = mset (concat (map (\<lambda>(la, lo). offset_variants la lo margin) zs))"
  unfolding upt_nine mset_variants by (simp add: add.assoc)

text \<open>
  Claim C2. For latitudes and longitudes of the same length \<open>N\<close> and a margin \<open>m > 0\<close>,
  \<open>add_margin\<close> returns two sequences of length \<open>9 * N\<close>, and the points they pair up are,
  as a multiset, exactly the nine offset variants of every input point: each variant of
  each point occurs once.
\<close>

theorem add_margin_nine_variants:
  assumes "length lats = N" and "length lons = N" and "margin > 0"
  shows "\<exists>las los. add_margin lats lons margin = Inr (las, los)
           \<and> length las = 9 * N \<and> length los = 9 * N
           \<and> mset (zip las los)
               = mset (concat (map (\<lambda>(lat, lon). offset_variants lat lon margin) (zip lats lons)))"
proof -
  let ?A = "\<lambda>k. array_add lats (of_int (int (k div 3) - 1) * margin)"
  let ?B = "\<lambda>k. array_add lons (of_int (int (k mod 3) - 1) * margin)"
  let ?las = "concat (map ?A [0..<9])" and ?los = "concat (map ?B [0..<9])"
  have r: "add_margin lats lons margin = Inr (?las, ?los)"
    using assms(3) by (rule add_margin_blocks)
  have "length ?las = 9 * N"
    using length_concat_blocks [of "map ?A [0..<9]" N] assms(1) by (simp add: length_array_add)
  moreover have "length ?los = 9 * N"
    using length_concat_blocks [of "map ?B [0..<9]" N] assms(2) by (simp add: length_array_add)
  moreover have "mset (zip ?las ?los)
      = mset (concat (map (\<lambda>(lat, lon). offset_variants lat lon margin) (zip lats lons)))"
  proof -
    have "zip ?las ?los = concat (map (\<lambda>k. zip (?A k) (?B k)) [0..<9])"
      by (rule zip_concat_blocks) (simp add: length_array_add assms(1,2))
    also have "\<dots> = concat (map (\<lambda>k. shifted margin (int (k div 3) - 1) (int (k mod 3) - 1) (zip lats lons)) [0..<9])"
      by (simp only: zip_array_add)
    finally show ?thesis by (simp only: mset_blocks)
  qed
  ultimately show ?thesis using r by blast
qed

theorem add_margin_nine_variants_witness:
  "\<exists>las los. add_margin [1, 2] [3, 4] (1/2) = Inr (las, los)
      \<and> length las = 18 \<and> length los = 18
      \<and> mset (zip las los)
          = mset (offset_variants 1 3 (1/2)) + mset (offset_variants 2 4 (1/2))"
proof -
  have h1: "length [1, 2::real] = 2" and h2: "length [3, 4::real] = 2" and h3: "(1/2::real) > 0"
    by simp_all
  from add_margin_nine_variants [OF h1 h2 h3] show ?thesis by simp
qed

text \<open>
  Claim C3. For inputs of length \<open>N\<close> and a margin \<open>m > 0\<close> the output consists of nine
  contiguous blocks of \<open>N\<close> entries. Block \<open>k\<close> (counted from \<open>0\<close>) is the input sequence, in
  its order, moved by \<open>(k div 3 - 1) * m\<close> in latitude and by \<open>(k mod 3 - 1) * m\<close> in
  longitude: the latitude sign is the outer loop, the longitude sign the inner one, so the
  blocks come in the order \<open>(-1,-1), (-1,0), (-1,1), (0,-1), (0,0), (0,1), (1,-1), (1,0), (1,1)\<close>.
\<close>

theorem add_margin_block_order:
  assumes "length lats = N" and "length lons = N" and "margin > 0"
  shows "\<exists>las los. add_margin lats lons margin = Inr (las, los)
           \<and> length las = 9 * N \<and> length los = 9 * N
           \<and> (\<forall>k<9. take N (drop (k * N) las) = map (\<lambda>x. x + of_int (int (k div 3) - 1) * margin) lats
                  \<and> take N (drop (k * N) los) = map (\<lambda>x. x + of_int (int (k mod 3) - 1) * margin) lons)"
proof -
  let ?A = "map (\<lambda>k. array_add lats (of_int (int (k div 3) - 1) * margin)) [0..<9]"
  let ?B = "map (\<lambda>k. array_add lons (of_int (int (k mod 3) - 1) * margin)) [0..<9]"
  have r: "add_margin lats lons margin = Inr (concat ?A, concat ?B)"
    using assms(3) by (rule add_margin_blocks)
  have la: "\<forall>b\<in>set ?A. length b = N" using assms(1) by (auto simp: array_add_def)
  have lb: "\<forall>b\<in>set ?B. length b = N" using assms(2) by (auto simp: array_add_def)
  have "length (concat ?A) = 9 * N" using length_concat_blocks [OF la] by simp
  moreover have "length (concat ?B) = 9 * N" using length_concat_blocks [OF lb] by simp
  moreover have "take N (drop (k * N) (concat ?A)) = map (\<lambda>x. x + of_int (int (k div 3) - 1) * margin) lats"
    if "k < 9" for k
    using concat_block [OF la, of k] that by (simp add: array_add_def)
  moreover have "take N (drop (k * N) (concat ?B)) = map (\<lambda>x. x + of_int (int (k mod 3) - 1) * margin) lons"
    if "k < 9" for k
    using concat_block [OF lb, of k] that by (simp add: array_add_def)
  ultimately show ?thesis using r by blast
qed

theorem add_margin_block_order_witness:
  "\<exists>las los. add_margin [1, 2] [3, 4] (1/2) = Inr (las, los)
      \<and> length las = 18 \<and> length los = 18
      \<and> take 2 (drop 0 las) = [1/2, 3/2] \<and> take 2 (drop 0 los) = [5/2, 7/2]
      \<and> take 2 (drop 10 las) = [1, 2] \<and> take 2 (drop 10 los) = [7/2, 9/2]"
proof -
  have h1: "length [1, 2::real] = 2" and h2: "length [3, 4::real] = 2" and h3: "(1/2::real) > 0"
    by simp_all
  from add_margin_block_order [OF h1 h2 h3] obtain las los where
    r: "add_margin [1, 2] [3, 4] (1/2) = Inr (las, los)" "length las = 9 * 2" "length los = 9 * 2"
    and blocks: "\<forall>k<9. take 2 (drop (k * 2) las) = map (\<lambda>x. x + of_int (int (k div 3) - 1) * (1/2)) [1, 2]
                  \<and> take 2 (drop (k * 2) los) = map (\<lambda>x. x + of_int (int (k mod 3) - 1) * (1/2)) [3, 4]"
    by blast
  from blocks have "take 2 (drop (0 * 2) las) = map (\<lambda>x. x + of_int (int (0 div 3) - 1) * (1/2)) [1, 2]
      \<and> take 2 (drop (0 * 2) los) = map (\<lambda>x. x + of_int (int (0 mod 3) - 1) * (1/2)) [3, 4]"
    by (rule allE [of _ 0]) simp
  then have b0: "take 2 (drop 0 las) = [1/2, 3/2]" "take 2 (drop 0 los) = [5/2, 7/2]"
    by simp_all
  from blocks have "take 2 (drop (5 * 2) las) = map (\<lambda>x. x + of_int (int (5 div 3) - 1) * (1/2)) [1, 2]
      \<and> take 2 (drop (5 * 2) los) = map (\<lambda>x. x + of_int (int (5 mod 3) - 1) * (1/2)) [3, 4]"
    by (rule allE [of _ 5]) simp
  then have b5: "take 2 (drop 10 las) = [1, 2]" "take 2 (drop 10 los) = [7/2, 9/2]"
    by simp_all
  from r b0 b5 show ?thesis by simp
qed

section \<open>get_index_in_outer_join\<close>

lemma broadcast_eq_same_length:
  "length row = length vector \<Longrightarrow>
   broadcast_eq row vector = Inr (map (\<lambda>(x, y). x = y) (zip row vector))"
  by (simp add: broadcast_eq_def)

lemma list_all_zip_eq:
  "length row = length vector \<Longrightarrow>
   list_all (\<lambda>b. b) (map (\<lambda>(x, y). x = y) (zip row vector)) \<longleftrightarrow> row = vector"
  by (auto simp: list_all_iff list_eq_iff_zip_eq)

lemma all_rows_eq:
  "\<forall>row\<in>set tensor. length row = length vector \<Longrightarrow>
   all_rows tensor vector = Inr (map (\<lambda>row. row = vector) tensor)"
  by (induction tensor) (simp_all add: broadcast_eq_same_length list_all_zip_eq)

lemma where_true_rows:
  "where_true (map (\<lambda>row. row = vector) tensor) = filter (\<lambda>i. tensor ! i = vector) [0..<length tensor]"
  unfolding where_true_def by (rule filter_cong) simp_all

lemma distinct_singleton_set: "distinct xs \<Longrightarrow> set xs = {i} \<Longrightarrow> xs = [i]"
proof (cases xs)
  case Nil
  assume "set xs = {i}"
  with Nil show ?thesis by simp
next
  case (Cons a ys)
  assume d: "distinct xs" and s: "set xs = {i}"
  from s Cons have a: "a = i" by auto
  from d Cons a have n: "i \<notin> set ys" by simp
  from s Cons have "set ys \<subseteq> {i}" by auto
  with n have "ys = []" by (cases ys) auto
  with a Cons show ?thesis by simp
qed

lemma filter_upt_unique:
  assumes "i < n" and "P i" and "\<forall>j<n. P j \<longrightarrow> j = i"
  shows "filter P [0..<n] = [i]"
proof (rule distinct_singleton_set)
  show "distinct (filter P [0..<n])" by simp
  have "\<And>j. j \<in> set (filter P [0..<n]) \<Longrightarrow> j = i" using assms(3) by simp
  moreover have "i \<in> set (filter P [0..<n])" using assms(1,2) by simp
  ultimately show "set (filter P [0..<n]) = {i}" by blast
qed

text \<open>
  Claim C5. For a query vector of length \<open>N\<close> and a matrix whose rows all have length \<open>N\<close>:
  when exactly one row index \<open>i\<close> holds a row equal to the vector, entry by entry,
  \<open>get_index_in_outer_join\<close> returns \<open>i\<close>; when no row equals the vector it returns \<open>-1\<close>.
\<close>

theorem get_index_in_outer_join_unique_or_absent:
  assumes "length vector = N" and "\<forall>row\<in>set tensor. length row = N"
  shows "(i < length tensor \<and> tensor ! i = vector
            \<and> (\<forall>j<length tensor. tensor ! j = vector \<longrightarrow> j = i)
          \<longrightarrow> get_index_in_outer_join vector tensor = Inr (int i))
       \<and> ((\<forall>j<length tensor. tensor ! j \<noteq> vector)
          \<longrightarrow> get_index_in_outer_join vector tensor = Inr (- 1))"
proof -
  have rows: "all_rows tensor vector = Inr (map (\<lambda>row. row = vector) tensor)"
    using assms by (intro all_rows_eq) simp
  have ex: "list_ex (\<lambda>b. b) (map (\<lambda>row. row = vector) tensor) \<longleftrightarrow> (\<exists>j<length tensor. tensor ! j = vector)"
  proof -
    have "(\<exists>row\<in>set tensor. row = vector) \<longleftrightarrow> (\<exists>j<length tensor. tensor ! j = vector)"
      by (metis in_set_conv_nth)
    then show ?thesis by (simp add: list_ex_iff)
  qed
  show ?thesis
  proof (intro conjI impI)
    assume u: "i < length tensor \<and> tensor ! i = vector
            \<and> (\<forall>j<length tensor. tensor ! j = vector \<longrightarrow> j = i)"
    then have "where_true (map (\<lambda>row. row = vector) tensor) = [i]"
      unfolding where_true_rows by (intro filter_upt_unique) simp_all
    moreover have "list_ex (\<lambda>b. b) (map (\<lambda>row. row = vector) tensor)"
      using u ex by blast
    ultimately show "get_index_in_outer_join vector tensor = Inr (int i)"
      by (simp add: get_index_in_outer_join_def rows tensor_to_int_def)
  next
    assume "\<forall>j<length tensor. tensor ! j \<noteq> vector"
    then have "\<not> list_ex (\<lambda>b. b) (map (\<lambda>row. row = vector) tensor)"
      using ex by blast
    then show "get_index_in_outer_join vector tensor = Inr (- 1)"
      by (simp add: get_index_in_outer_join_def rows)
  qed
qed

theorem get_index_in_outer_join_unique_or_absent_witness:
  "get_index_in_outer_join [3, 4::int] [[1, 2], [3, 4], [5, 6]] = Inr 1
   \<and> get_index_in_outer_join [9, 9::int] [[1, 2], [3, 4], [5, 6]] = Inr (- 1)"
proof -
  have h1: "length [3, 4::int] = 2" and h1': "length [9, 9::int] = 2" by simp_all
  have h2: "\<forall>row\<in>set [[1, 2], [3, 4], [5, 6::int]]. length row = 2" by simp
  have a: "\<forall>j<length [[1, 2], [3, 4], [5, 6::int]]. [[1, 2], [3, 4], [5, 6::int]] ! j = [3, 4] \<longrightarrow> j = 1"
    by (simp add: nth_Cons' less_Suc_eq)
  have b: "\<forall>j<length [[1, 2], [3, 4], [5, 6::int]]. [[1, 2], [3, 4], [5, 6::int]] ! j \<noteq> [9, 9]"
    by (simp add: nth_Cons' less_Suc_eq)
  from get_index_in_outer_join_unique_or_absent [OF h1 h2, of 1] a
  have "get_index_in_outer_join [3, 4::int] [[1, 2], [3, 4], [5, 6]] = Inr 1" by simp
  moreover from get_index_in_outer_join_unique_or_absent [OF h1' h2, of 0] b
  have "get_index_in_outer_join [9, 9::int] [[1, 2], [3, 4], [5, 6]] = Inr (- 1)" by blast
  ultimately show ?thesis by blast
qed

section \<open>get_nearest_neighbour: the mask\<close>

text \<open>
  Claim C6. For coordinates of \<open>N\<close> points, a mask whose shape is not \<open>(N, 1)\<close> makes
  \<open>get_nearest_neighbour\<close> fail with the assertion error of the shape check. With a mask of
  shape \<open>(N, 1)\<close>, or with no mask, the shape check passes: the result is that of fitting
  the estimator, which is never this assertion error.
\<close>

theorem get_nearest_neighbour_shape_check:
  "(mask_shape m \<noteq> [length coords_rad, 1] \<longrightarrow>
      get_nearest_neighbour coords_rad (Some m)
        = Inl (AssertionError ''Mask must have the same shape as the number of nodes.''))
   \<and> (mask_shape m = [length coords_rad, 1] \<longrightarrow>
      get_nearest_neighbour coords_rad (Some m)
        = fit \<lparr>metric = haversine, n_jobs = 4, fit_X = []\<rparr> coords_rad)
   \<and> get_nearest_neighbour coords_rad None
        = fit \<lparr>metric = haversine, n_jobs = 4, fit_X = []\<rparr> coords_rad
   \<and> (\<forall>s. fit \<lparr>metric = haversine, n_jobs = 4, fit_X = []\<rparr> coords_rad \<noteq> Inl (AssertionError s))"
  by (simp add: get_nearest_neighbour_def mask_shape_ok_def fit_def)

theorem get_nearest_neighbour_shape_check_witness:
  "get_nearest_neighbour [(0, 0), (0, 1), (0, 2), (1, 0), (1, 1)]
      (Some \<lparr>mask_shape = [3, 1], mask_entries = [True, True, False]\<rparr>)
     = Inl (AssertionError ''Mask must have the same shape as the number of nodes.'')
   \<and> get_nearest_neighbour [(0, 0), (0, 1), (0, 2), (1, 0), (1, 1)]
      (Some \<lparr>mask_shape = [5, 1], mask_entries = [True, True, False, True, True]\<rparr>)
     = Inr \<lparr>metric = haversine, n_jobs = 4, fit_X = [(0, 0), (0, 1), (0, 2), (1, 0), (1, 1)]\<rparr>"
  using get_nearest_neighbour_shape_check
          [of "\<lparr>mask_shape = [3, 1], mask_entries = [True, True, False]\<rparr>"
              "[(0, 0), (0, 1), (0, 2), (1, 0), (1, 1)]"]
        get_nearest_neighbour_shape_check
          [of "\<lparr>mask_shape = [5, 1], mask_entries = [True, True, False, True, True]\<rparr>"
              "[(0, 0), (0, 1), (0, 2), (1, 0), (1, 1)]"]
  by (simp add: fit_def)

text \<open>
  Claim C7. The content of the mask plays no part: for any two masks that pass the shape
  check (no mask included), \<open>get_nearest_neighbour\<close> gives the same result, the estimator
  fitted on the whole coordinate set, and so \<open>get_grid_reference_distance\<close> gives the same
  result too.
\<close>

theorem mask_content_ignored:
  assumes "mask_shape_ok coords_rad m1" and "mask_shape_ok coords_rad m2"
  shows "get_nearest_neighbour coords_rad m1 = get_nearest_neighbour coords_rad m2
       \<and> get_nearest_neighbour coords_rad m1
           = fit \<lparr>metric = haversine, n_jobs = 4, fit_X = []\<rparr> coords_rad
       \<and> get_grid_reference_distance coords_rad m1 = get_grid_reference_distance coords_rad m2"
  using assms by (simp add: get_grid_reference_distance_def get_nearest_neighbour_def)

theorem mask_content_ignored_witness:
  "mask_shape_ok [(0, 0), (0, 1)] (Some \<lparr>mask_shape = [2, 1], mask_entries = [True, False]\<rparr>)
   \<and> mask_shape_ok [(0, 0), (0, 1)] (Some \<lparr>mask_shape = [2, 1], mask_entries = [False, True]\<rparr>)
   \<and> get_nearest_neighbour [(0, 0), (0, 1)] (Some \<lparr>mask_shape = [2, 1], mask_entries = [True, False]\<rparr>)
       = get_nearest_neighbour [(0, 0), (0, 1)] (Some \<lparr>mask_shape = [2, 1], mask_entries = [False, True]\<rparr>)
   \<and> get_grid_reference_distance [(0, 0), (0, 1)] (Some \<lparr>mask_shape = [2, 1], mask_entries = [True, False]\<rparr>)
       = get_grid_reference_distance [(0, 0), (0, 1)] (Some \<lparr>mask_shape = [2, 1], mask_entries = [False, True]\<rparr>)"
proof -
  have h1: "mask_shape_ok [(0, 0), (0, 1)] (Some \<lparr>mask_shape = [2, 1], mask_entries = [True, False]\<rparr>)"
    and h2: "mask_shape_ok [(0, 0), (0, 1)] (Some \<lparr>mask_shape = [2, 1], mask_entries = [False, True]\<rparr>)"
    by (simp_all add: mask_shape_ok_def)
  from mask_content_ignored [OF h1 h2] h1 h2 show ?thesis by blast
qed

section \<open>get_grid_reference_distance\<close>

subsection \<open>The haversine metric along a meridian and along the equator\<close>

lemma haversine_self: "haversine p p = 0"
  by (simp add: haversine_def)

lemma two_arcsin_abs_sin:
  fixes t :: real
  assumes "\<bar>t\<bar> \<le> pi"
  shows "2 * arcsin \<bar>sin (t / 2)\<bar> = \<bar>t\<bar>"
proof (cases "0 \<le> t")
  case True
  with assms have "0 \<le> sin (t / 2)" by (intro sin_ge_zero) auto
  moreover have "arcsin (sin (t / 2)) = t / 2"
    using True assms by (intro arcsin_sin) auto
  ultimately show ?thesis using True by simp
next
  case False
  with assms have "0 \<le> sin (- t / 2)" by (intro sin_ge_zero) auto
  then have "\<bar>sin (t / 2)\<bar> = sin (- t / 2)" by simp
  moreover have "arcsin (sin (- t / 2)) = - t / 2"
    using False assms by (intro arcsin_sin) auto
  ultimately show ?thesis using False by simp
qed

lemma haversine_same_lon:
  assumes "\<bar>a - b\<bar> \<le> 2"
  shows "haversine (a, l) (b, l) = \<bar>a - b\<bar>"
proof -
  have "\<bar>a - b\<bar> \<le> pi" using assms pi_ge_two by linarith
  from two_arcsin_abs_sin [OF this] show ?thesis by (simp add: haversine_def)
qed

lemma haversine_on_equator:
  assumes "\<bar>a - b\<bar> \<le> 2"
  shows "haversine (0, a) (0, b) = \<bar>a - b\<bar>"
proof -
  have "\<bar>a - b\<bar> \<le> pi" using assms pi_ge_two by linarith
  from two_arcsin_abs_sin [OF this] show ?thesis by (simp add: haversine_def)
qed

subsection \<open>The result is positive\<close>

lemma fold_max_in_set: "fold max ys (x::real) \<in> set (x # ys)"
proof (induction ys arbitrary: x)
  case Nil
  show ?case by simp
next
  case (Cons y ys)
  from Cons [of "max y x"] show ?case by (auto simp: max_def split: if_splits)
qed

lemma array_max_in_set: "array_max xs = Inr r \<Longrightarrow> r \<in> set xs"
  using fold_max_in_set by (auto simp: array_max_def split: list.splits)

lemma reference_distance_two_points: "get_grid_reference_distance [(0, 0), (1, 0)] None = Inr 1"
  by (simp add: get_grid_reference_distance_def get_nearest_neighbour_def mask_shape_ok_def
        fit_def kneighbors_def array_max_def haversine_same_lon)

text \<open>
  Claim C10. Whenever \<open>get_grid_reference_distance\<close> returns a value, the value is
  strictly positive: it is an element of the distances that remain after the zero ones
  are discarded.
\<close>

theorem reference_distance_positive:
  assumes "get_grid_reference_distance coords_rad msk = Inr r"
  shows "0 < r"
proof -
  from assms obtain dists where "array_max (filter (\<lambda>d. d > 0) (concat dists)) = Inr r"
    by (auto simp: get_grid_reference_distance_def split: sum.splits)
  from array_max_in_set [OF this] show ?thesis by simp
qed


theorem reference_distance_positive_witness:
  "get_grid_reference_distance [(0, 0), (1, 0)] None = Inr 1 \<and> (0::real) < 1"
  by (intro conjI reference_distance_two_points
        reference_distance_positive [OF reference_distance_two_points])

subsection \<open>Coincident points\<close>

lemma dists_nonpositive_filter:
  assumes "\<forall>p\<in>set coords. \<forall>q\<in>set coords. haversine p q = 0"
  shows "filter (\<lambda>d. d > 0) (concat (map (\<lambda>q. take k (sort (map (haversine q) coords))) coords)) = []"
proof -
  have "x = 0" if "x \<in> set (concat (map (\<lambda>q. take k (sort (map (haversine q) coords))) coords))" for x
  proof -
    from that obtain q where q: "q \<in> set coords" and x: "x \<in> set (take k (sort (map (haversine q) coords)))"
      by auto
    from x have "x \<in> set (sort (map (haversine q) coords))" by (rule in_set_takeD)
    then obtain p where "p \<in> set coords" and "x = haversine q p" by auto
    with q assms show ?thesis by simp
  qed
  then show ?thesis by (auto simp: filter_empty_conv)
qed


text \<open>
  Claim C9 asks that a coordinate set whose points all coincide makes the function fail
  with a dedicated error or return a sentinel. It does neither: for two coincident points
  every neighbour distance is zero, nothing remains after the filter, and the exception of
  the maximum of an empty array is what the caller gets.
\<close>

theorem reference_distance_coincident_counterexample: "get_grid_reference_distance [(0, 0), (0, 0)] None
   = Inl (LibraryError ''zero-size array to reduction operation maximum which has no identity'')"
  by (simp add: get_grid_reference_distance_def get_nearest_neighbour_def mask_shape_ok_def
        fit_def kneighbors_def array_max_def haversine_self)


text \<open>
  Claim C9, amended. For every coordinate set in which all pairwise distances are zero
  (and a mask that passes the shape check) \<open>get_grid_reference_distance\<close> returns no
  value: it fails with the exception of the library call that rejects the data, which for
  two or more points is the one of the maximum of an empty array.
\<close>

theorem reference_distance_coincident:
  assumes "mask_shape_ok coords msk"
    and "\<forall>p\<in>set coords. \<forall>q\<in>set coords. haversine p q = 0"
  shows "get_grid_reference_distance coords msk =
     Inl (LibraryError
       (if coords = [] then ''Found array with 0 sample(s)''
        else if length coords < 2 then ''Expected n_neighbors <= n_samples_fit''
        else ''zero-size array to reduction operation maximum which has no identity''))"
proof (cases "coords = []")
  case True
  with assms(1) show ?thesis
    by (simp add: get_grid_reference_distance_def get_nearest_neighbour_def fit_def)
next
  case False
  note ne = this
  show ?thesis
  proof (cases "length coords < 2")
    case True
    with ne assms(1) show ?thesis
      by (simp add: get_grid_reference_distance_def get_nearest_neighbour_def fit_def kneighbors_def)
  next
    case False
    with ne assms(1) show ?thesis
      by (simp add: get_grid_reference_distance_def get_nearest_neighbour_def fit_def kneighbors_def
            dists_nonpositive_filter [OF assms(2)] array_max_def)
  qed
qed

theorem reference_distance_coincident_witness:
  "get_grid_reference_distance [(1, 2), (1, 2), (1, 2)] None
     = Inl (LibraryError ''zero-size array to reduction operation maximum which has no identity'')"
proof -
  have h1: "mask_shape_ok [(1, 2), (1, 2), (1, 2)] None" by (simp add: mask_shape_ok_def)
  have h2: "\<forall>p\<in>set [(1, 2), (1, 2), (1::real, 2::real)]. \<forall>q\<in>set [(1, 2), (1, 2), (1, 2)]. haversine p q = 0"
    by (simp add: haversine_self)
  from reference_distance_coincident [OF h1 h2] show ?thesis by simp
qed

subsection \<open>Comparison with the brute-force reference distance\<close>

lemma mset_map_upt_split:
  assumes "i < n"
  shows "mset (map f [0..<n]) = add_mset (f i) (mset (map f (filter (\<lambda>j. j \<noteq> i) [0..<n])))"
proof -
  have one: "filter (\<lambda>j. j = i) [0..<n] = [i]"
    using assms by (intro filter_upt_unique) simp_all
  have "mset [0..<n] = mset (filter (\<lambda>j. j = i) [0..<n]) + mset (filter (\<lambda>j. \<not> j = i) [0..<n])"
    unfolding mset_filter by (rule multiset_partition)
  then have "mset [0..<n] = add_mset i (mset (filter (\<lambda>j. j \<noteq> i) [0..<n]))"
    unfolding one by simp
  then have "image_mset f (mset [0..<n]) = image_mset f (add_mset i (mset (filter (\<lambda>j. j \<noteq> i) [0..<n])))"
    by (rule arg_cong)
  then show ?thesis by simp
qed

lemma sort_least_first:
  fixes x :: real
  assumes "mset xs = add_mset x (mset ys)" and "\<forall>y\<in>set ys. x \<le> y"
  shows "sort xs = x # sort ys"
proof (rule properties_for_sort)
  show "mset (x # sort ys) = mset xs" using assms(1) by simp
  show "sorted (x # sort ys)" using assms(2) by simp
qed

lemma hd_sort_Min:
  fixes ys :: "real list"
  assumes "ys \<noteq> []"
  shows "hd (sort ys) = Min (set ys)"
proof -
  from assms have ne: "sort ys \<noteq> []" by (metis length_0_conv length_sort)
  then obtain z zs where zs: "sort ys = z # zs" by (cases "sort ys") auto
  have "sorted (z # zs)" using zs by (metis sorted_sort)
  then have le: "\<forall>y\<in>set (z # zs). z \<le> y" by auto
  have s: "set (z # zs) = set ys" using zs by (metis set_sort)
  have "Min (set ys) = z"
  proof (rule Min_eqI)
    show "finite (set ys)" by simp
    show "\<And>y. y \<in> set ys \<Longrightarrow> z \<le> y" using le s by blast
    show "z \<in> set ys" using s by auto
  qed
  with zs show ?thesis by simp
qed

lemma minimum_of_sort:
  assumes "ys \<noteq> []"
  shows "minimum_of ys = Some (hd (sort ys))"
proof -
  from assms obtain y ys' where ys: "ys = y # ys'" by (cases ys) auto
  have "Min (set (y # ys')) = fold min ys' y" by (rule Min.set_eq_fold)
  with ys hd_sort_Min [OF assms] show ?thesis by (simp add: minimum_of_def)
qed

lemma take_two_sort:
  assumes "ys \<noteq> []"
  shows "take 2 (x # sort ys) = [x, hd (sort ys)]"
proof -
  from assms have "sort ys \<noteq> []" by (metis length_0_conv length_sort)
  then obtain z zs where "sort ys = z # zs" by (cases "sort ys") auto
  then show ?thesis by (simp add: numeral_2_eq_2)
qed

lemma filter_positive_rows:
  "\<forall>i\<in>set ks. 0 < m i \<Longrightarrow>
   filter (\<lambda>d. d > 0) (concat (map (\<lambda>i. [0::real, m i]) ks)) = map m ks"
  by (induction ks) simp_all

lemma map_by_index: "map f xs = map (\<lambda>i. f (xs ! i)) [0..<length xs]"
proof -
  have "map (\<lambda>i. f (xs ! i)) [0..<length xs] = map f (map (nth xs) [0..<length xs])"
    by (simp only: map_map comp_def)
  also have "\<dots> = map f xs" by (simp only: map_nth)
  finally show ?thesis by (rule sym)
qed

lemma array_max_maximum_of:
  "xs \<noteq> [] \<Longrightarrow> \<exists>r. array_max xs = Inr r \<and> maximum_of xs = Some r"
  by (cases xs) (simp_all add: array_max_def maximum_of_def)

lemma others_nonempty:
  assumes "2 \<le> n" and "i < n"
  shows "filter (\<lambda>j. j \<noteq> i) [0..<n] \<noteq> []"
proof -
  have "(if i = 0 then 1 else 0) \<in> set (filter (\<lambda>j. j \<noteq> i) [0..<n])"
    using assms by simp
  then show ?thesis by (metis empty_iff empty_set)
qed

lemma row_of_distinct_point:
  assumes n: "2 \<le> length coords" and i: "i < length coords"
    and pos: "\<forall>j<length coords. i \<noteq> j \<longrightarrow> 0 < haversine (coords ! i) (coords ! j)"
  shows "take 2 (sort (map (haversine (coords ! i)) coords))
           = [0, hd (sort (map (\<lambda>j. haversine (coords ! i) (coords ! j))
                               (filter (\<lambda>j. j \<noteq> i) [0..<length coords])))]"
    (is "_ = [0, hd (sort ?others)]")
proof -
  have idx: "map (haversine (coords ! i)) coords
      = map (\<lambda>j. haversine (coords ! i) (coords ! j)) [0..<length coords]"
    by (rule map_by_index)
  have ms: "mset (map (haversine (coords ! i)) coords) = add_mset 0 (mset ?others)"
    unfolding idx using mset_map_upt_split [OF i, of "\<lambda>j. haversine (coords ! i) (coords ! j)"]
    by (simp add: haversine_self)
  have le: "\<forall>y\<in>set ?others. 0 \<le> y" using pos by (auto intro: less_imp_le)
  have ne: "?others \<noteq> []" using others_nonempty [OF n i] by simp
  from sort_least_first [OF ms le] take_two_sort [OF ne] show ?thesis by simp
qed

lemma positive_distances_all:
  assumes "\<forall>j<length coords. i \<noteq> j \<longrightarrow> 0 < haversine (coords ! i) (coords ! j)"
  shows "positive_distances_to_others coords i
           = map (\<lambda>j. haversine (coords ! i) (coords ! j)) (filter (\<lambda>j. j \<noteq> i) [0..<length coords])"
  unfolding positive_distances_to_others_def using assms by (intro filter_True) auto

lemma reference_distance_three_points:
  "get_grid_reference_distance [(0, 0), (0, 1/100), (0, 1/50)] None = Inr (1/100)"
  by (simp add: get_grid_reference_distance_def get_nearest_neighbour_def mask_shape_ok_def
        fit_def kneighbors_def array_max_def haversine_on_equator)


text \<open>
  Claim C1 states that for every coordinate set with at least two distinct points the
  result equals the brute-force value: the maximum over all points of the minimum positive
  distance to any other point. With coincident points this fails. Of the four points
  below, the first two coincide; their two nearest fitted rows are both at distance zero,
  so they contribute nothing to the result, which is \<open>1/2\<close>, the spacing of the last two
  points. Their minimum positive distance to another point is \<open>1\<close>, the brute-force value.
\<close>

theorem reference_distance_brute_force_counterexample:
  "0 < haversine (0, 0) (1, 0)
   \<and> get_grid_reference_distance [(0, 0), (0, 0), (1, 0), (3/2, 0)] None = Inr (1/2)
   \<and> brute_force_reference_distance [(0, 0), (0, 0), (1, 0), (3/2, 0)] = Some 1"
proof (intro conjI)
  show "0 < haversine (0, 0) (1, 0)" by (simp add: haversine_same_lon)
  show "get_grid_reference_distance [(0, 0), (0, 0), (1, 0), (3/2, 0)] None = Inr (1/2)"
    by (simp add: get_grid_reference_distance_def get_nearest_neighbour_def mask_shape_ok_def
          fit_def kneighbors_def array_max_def haversine_same_lon)
  show "brute_force_reference_distance [(0, 0), (0, 0), (1, 0), (3/2, 0)] = Some 1"
    by (simp add: brute_force_reference_distance_def positive_distances_to_others_def
          minimum_of_def maximum_of_def haversine_same_lon
          upt_rec [of 0] upt_rec [of 1] upt_rec [of 2] upt_rec [of 3] upt_rec [of 4])
qed

text \<open>
  Claim C1, amended. For every coordinate set of at least two points in which any two
  points at different positions of the sequence are at a positive haversine distance (no
  two points coincide), and every mask that passes the shape check,
  \<open>get_grid_reference_distance\<close> returns a value, and it is the brute-force value: the
  maximum over all points of the point's minimum positive distance to any other point.
\<close>

theorem reference_distance_brute_force:
  assumes n: "2 \<le> length coords" and ok: "mask_shape_ok coords msk"
    and pos: "\<forall>i<length coords. \<forall>j<length coords. i \<noteq> j \<longrightarrow> 0 < haversine (coords ! i) (coords ! j)"
  shows "\<exists>r. get_grid_reference_distance coords msk = Inr r
           \<and> brute_force_reference_distance coords = Some r"
proof -
  let ?others = "\<lambda>i. map (\<lambda>j. haversine (coords ! i) (coords ! j)) (filter (\<lambda>j. j \<noteq> i) [0..<length coords])"
  let ?m = "\<lambda>i. hd (sort (?others i))"
  have ne: "?others i \<noteq> []" if "i < length coords" for i
    using others_nonempty [OF n that] by simp
  have m_pos: "0 < ?m i" if i: "i < length coords" for i
  proof -
    have "hd (sort (?others i)) \<in> set (sort (?others i))"
      using ne [OF i] by (intro hd_in_set) (metis length_0_conv length_sort)
    then have "?m i \<in> set (?others i)" by simp
    with pos i show ?thesis by auto
  qed
  have rows: "map (\<lambda>q. take 2 (sort (map (haversine q) coords))) coords
      = map (\<lambda>i. [0, ?m i]) [0..<length coords]"
  proof -
    have "map (\<lambda>q. take 2 (sort (map (haversine q) coords))) coords
        = map (\<lambda>i. take 2 (sort (map (haversine (coords ! i)) coords))) [0..<length coords]"
      by (rule map_by_index)
    also have "\<dots> = map (\<lambda>i. [0, ?m i]) [0..<length coords]"
      using n pos by (intro map_cong refl row_of_distinct_point) simp_all
    finally show ?thesis .
  qed
  have flt: "filter (\<lambda>d. d > 0) (concat (map (\<lambda>q. take 2 (sort (map (haversine q) coords))) coords))
      = map ?m [0..<length coords]"
    unfolding rows using m_pos by (intro filter_positive_rows) simp
  have code: "get_grid_reference_distance coords msk = array_max (map ?m [0..<length coords])"
    using n ok flt
    by (auto simp: get_grid_reference_distance_def get_nearest_neighbour_def fit_def kneighbors_def)
  have "concat (map (\<lambda>i. case minimum_of (positive_distances_to_others coords i) of
                             None \<Rightarrow> [] | Some m \<Rightarrow> [m]) [0..<length coords])
      = concat (map (\<lambda>i. [?m i]) [0..<length coords])"
  proof (intro arg_cong [where f = concat] map_cong refl)
    fix i assume "i \<in> set [0..<length coords]"
    then have i: "i < length coords" by simp
    have "positive_distances_to_others coords i = ?others i"
      using pos i by (intro positive_distances_all) simp
    with minimum_of_sort [OF ne [OF i]]
    show "(case minimum_of (positive_distances_to_others coords i) of None \<Rightarrow> [] | Some m \<Rightarrow> [m]) = [?m i]"
      by simp
  qed
  also have "\<dots> = map ?m [0..<length coords]"
    by (induction "[0..<length coords]") auto
  finally have brute: "brute_force_reference_distance coords = maximum_of (map ?m [0..<length coords])"
    by (simp add: brute_force_reference_distance_def)
  have "map ?m [0..<length coords] \<noteq> []" using n by auto
  from array_max_maximum_of [OF this] code brute show ?thesis by simp
qed

theorem reference_distance_brute_force_witness:
  "get_grid_reference_distance [(0, 0), (0, 1/100), (0, 1/50)] None = Inr (1/100)
   \<and> brute_force_reference_distance [(0, 0), (0, 1/100), (0, 1/50)] = Some (1/100)"
proof -
  have h1: "2 \<le> length [(0, 0), (0, 1/100), (0, 1/50::real)]" by simp
  have h2: "mask_shape_ok [(0, 0), (0, 1/100), (0, 1/50)] None" by (simp add: mask_shape_ok_def)
  have h3: "\<forall>i<length [(0, 0), (0, 1/100), (0, 1/50::real)].
      \<forall>j<length [(0, 0), (0, 1/100), (0, 1/50::real)].
        i \<noteq> j \<longrightarrow> 0 < haversine ([(0, 0), (0, 1/100), (0, 1/50)] ! i) ([(0, 0), (0, 1/100), (0, 1/50)] ! j)"
    by (simp add: less_Suc_eq nth_Cons' haversine_on_equator)
  from reference_distance_brute_force [OF h1 h2 h3] obtain r where
    r: "get_grid_reference_distance [(0, 0), (0, 1/100), (0, 1/50)] None = Inr r"
       "brute_force_reference_distance [(0, 0), (0, 1/100), (0, 1/50)] = Some r"
    by blast
  from r(1) have "r = 1/100" unfolding reference_distance_three_points by (rule sum.inject [THEN iffD1, symmetric])
  with r(2) reference_distance_three_points show ?thesis by blast
qed



end
